theory Spec2Isabelle
  imports Main "HOL-Library.Word" "HOL-Library.Signed_Division"
begin

section \<open>Machine types of the Go program\<close>

text \<open>
  The package is written against the word sizes of its platform. Two widths are left open
  as type parameters: \<open>'p\<close> is the width of \<open>uintptr\<close> and \<open>'i\<close> the width of
  \<open>int\<close> and \<open>uint\<close>. \<open>int64\<close> is \<open>64 word\<close>. All arithmetic wraps around, as Go's
  does. A conversion from a signed type (\<open>int\<close>, \<open>int64\<close>) is \<open>scast\<close>: it extends with
  the sign when the target is wider and truncates when it is narrower. A conversion from
  an unsigned type (\<open>uint\<close>, \<open>uintptr\<close>) is \<open>ucast\<close>. The parameter \<open>length\<close>
  of the source is \<open>length0\<close> here, and \<open>length1\<close> once \<open>MapAt\<close> has replaced the
  value \<open>-1\<close> by the size of the file.
\<close>

text \<open>
  Go's \<open>/\<close> on signed integers: the quotient truncated towards zero, wrapped to the
  width of the operands. The divisor is nonzero at every use below (a division by zero
  is a run-time panic, written out where it can happen).
\<close>

definition int_quo :: "'a::len word \<Rightarrow> 'a word \<Rightarrow> 'a word" where
  "int_quo x y = word_of_int (sint x sdiv sint y)"

text \<open>\<open>reflect.SliceHeader\<close>: the address, length and capacity of a slice.\<close>

record (overloaded) ('p, 'i) SliceHeader =
  Data :: "'p::len word"
  Len :: "'i::len word"
  Cap :: "'i word"

text \<open>The \<open>nil\<close> slice: its header is all zero.\<close>

definition nil_slice :: "('p::len, 'i::len) SliceHeader" where
  "nil_slice = \<lparr>SliceHeader.Data = 0, Len = 0, Cap = 0\<rparr>"

text \<open>
  The slice expression \<open>s[:]\<close>: the same address, length and capacity as \<open>s\<close>
  (and \<open>nil\<close> for a \<open>nil\<close> slice).
\<close>

definition full_slice :: "('p::len, 'i::len) SliceHeader \<Rightarrow> ('p, 'i) SliceHeader" where
  "full_slice s = s"

text \<open>\<open>type MMap struct\<close> of \<open>gommap.go\<close>: the public field and the private copy.\<close>

record (overloaded) ('p, 'i) MMap =
  Data :: "('p::len, 'i::len) SliceHeader"
  internalData :: "('p, 'i) SliceHeader"

text \<open>
  \<open>os.Error\<close> values: \<open>os.Errno\<close> (an \<open>int64\<close>) and the string error of
  \<open>os.NewError\<close>. A run-time panic is not a returned value in Go; it is the third
  constructor, so that a panicking call is a branch of the model.
\<close>

datatype error = Errno "64 word" | NewError string | RuntimePanic string

section \<open>The kernel interface\<close>

datatype sysno =
  SYS_MMAP | SYS_MMAP2 | SYS_MUNMAP | SYS_MSYNC | SYS_MADVISE | SYS_MPROTECT
  | SYS_MLOCK | SYS_MUNLOCK | SYS_MINCORE

text \<open>
  A call that reaches the kernel: \<open>syscall.Syscall\<close> (three arguments),
  \<open>syscall.Syscall6\<close> (six) and \<open>syscall.Fstat\<close> on a descriptor.
\<close>

datatype ('a, 'b) call =
  Syscall sysno 'a 'a 'a
  | Syscall6 sysno 'a 'a 'a 'a 'a 'a
  | Fstat 'b

text \<open>The arguments are \<open>uintptr\<close> values; the descriptor of \<open>Fstat\<close> is an \<open>int\<close>.\<close>

type_synonym ('p, 'i) kcall = "('p word, 'i word) call"

text \<open>
  Everything outside the package is a parameter: what the kernel answers to a call
  (\<open>r1\<close>, \<open>r2\<close>, \<open>errno\<close>), what \<open>Fstat\<close> answers (\<open>stat.Size\<close> and the error
  number), \<open>os.Getpagesize()\<close>, the address of the array that \<open>make([]uint8, n)\<close>
  allocates, and the largest length that the run-time system allocates (\<open>make\<close> panics
  above it, as it does on a negative length). Every operation returns, beside its result,
  the list of the kernel calls it issued, in order.
\<close>

record (overloaded) ('p, 'i) host =
  answer :: "('p::len, 'i::len) kcall \<Rightarrow> 'p word \<times> 'p word \<times> 'p word"
  Fstat_answer :: "'i word \<Rightarrow> 64 word \<times> 'i word"
  Getpagesize :: "'i word"
  make_addr :: "'i word \<Rightarrow> 'p word"
  make_limit :: nat

text \<open>\<open>syscall.EINVAL\<close>.\<close>

definition EINVAL :: "'p::len word" where
  "EINVAL = 22"

section \<open>The platform adapters\<close>

text \<open>\<open>mmap_syscall\<close> of \<open>mmap_linux_amd64.go\<close>.\<close>

definition mmap_syscall_amd64 ::
  "('p::len, 'i::len) host \<Rightarrow> 'p word \<Rightarrow> 'p word \<Rightarrow> 'p word \<Rightarrow> 'p word \<Rightarrow> 'p word \<Rightarrow> 64 word
    \<Rightarrow> ('p word \<times> 'p word) \<times> ('p, 'i) kcall list" where
  "mmap_syscall_amd64 K addr length0 prot flags fd offset =
     (let c = Syscall6 SYS_MMAP addr length0 prot flags fd (scast offset);
          (addr', r2, errno) = answer K c
      in ((addr', errno), [c]))"

text \<open>
  \<open>mmap_syscall\<close> of \<open>unnamed/part_000\<close>, the adapter over \<open>SYS_MMAP2\<close>, whose last
  argument counts pages of 4096 bytes.
\<close>

definition mmap_syscall_part000 ::
  "('p::len, 'i::len) host \<Rightarrow> 'p word \<Rightarrow> 'p word \<Rightarrow> 'p word \<Rightarrow> 'p word \<Rightarrow> 'p word \<Rightarrow> 64 word
    \<Rightarrow> ('p word \<times> 'p word) \<times> ('p, 'i) kcall list" where
  "mmap_syscall_part000 K addr length0 prot flags fd offset =
     (let page = (scast (int_quo offset 4096) :: 'p word)
      in if offset \<noteq> (ucast page :: 64 word) * 4096 then ((0, EINVAL), [])
         else
           (let c = Syscall6 SYS_MMAP2 addr length0 prot flags fd page;
                (addr', r2, errno) = answer K c
            in ((addr', errno), [c])))"

section \<open>The mapped region of gommap.go\<close>

definition checkSlice ::
  "('p::len, 'i::len) MMap \<Rightarrow> ('p, 'i) SliceHeader \<Rightarrow> error option" where
  "checkSlice mmap region =
     (let rh = region;
          dh = internalData mmap
      in if SliceHeader.Data rh < SliceHeader.Data dh
            \<or> SliceHeader.Data rh + scast (Len rh) > SliceHeader.Data dh + scast (Len dh)
         then Some (NewError ''Region must be a slice of mmap.Data'')
         else None)"

definition MapAt ::
  "('p::len, 'i::len) host \<Rightarrow> 'p word \<Rightarrow> 'i word \<Rightarrow> 64 word \<Rightarrow> 64 word \<Rightarrow> 'i word \<Rightarrow> 'i word
    \<Rightarrow> (error + ('p, 'i) MMap) \<times> ('p, 'i) kcall list" where
  "MapAt K addr fd offset length0 prot flags =
     (let (sized, tr) =
            (if length0 = - 1
             then (let (stat_Size, errno) = Fstat_answer K fd
                   in if errno \<noteq> 0 then (Inl (Errno (scast errno)), [Fstat fd])
                      else (Inr stat_Size, [Fstat fd]))
             else (Inr length0, []))
      in case sized of
           Inl err \<Rightarrow> (Inl err, tr)
         | Inr length1 \<Rightarrow>
             (let c = Syscall6 SYS_MMAP addr (scast length1) (ucast prot) (ucast flags)
                        (scast fd) (scast offset);
                  (addr', r2, errno) = answer K c
              in if errno \<noteq> 0 then (Inl (Errno (ucast errno)), tr @ [c])
                 else
                   (let dh = \<lparr>SliceHeader.Data = addr', Len = scast length1,
                               Cap = scast length1\<rparr>
                    in (Inr \<lparr>MMap.Data = dh, internalData = dh\<rparr>, tr @ [c]))))"

definition Map ::
  "('p::len, 'i::len) host \<Rightarrow> 'i word \<Rightarrow> 'i word \<Rightarrow> 'i word
    \<Rightarrow> (error + ('p, 'i) MMap) \<times> ('p, 'i) kcall list" where
  "Map K fd prot flags = MapAt K 0 fd 0 (- 1) prot flags"

definition MapRegion ::
  "('p::len, 'i::len) host \<Rightarrow> 'i word \<Rightarrow> 64 word \<Rightarrow> 64 word \<Rightarrow> 'i word \<Rightarrow> 'i word
    \<Rightarrow> (error + ('p, 'i) MMap) \<times> ('p, 'i) kcall list" where
  "MapRegion K fd offset length0 prot flags = MapAt K 0 fd offset length0 prot flags"

definition UnsafeUnmapSlice ::
  "('p::len, 'i::len) host \<Rightarrow> ('p, 'i) MMap \<Rightarrow> ('p, 'i) SliceHeader
    \<Rightarrow> error option \<times> ('p, 'i) kcall list" where
  "UnsafeUnmapSlice K mmap region =
     (case checkSlice mmap region of
        Some err \<Rightarrow> (Some err, [])
      | None \<Rightarrow>
          (let rh = region;
               c = Syscall SYS_MUNMAP (SliceHeader.Data rh) (scast (Len rh)) 0;
               (r1, r2, errno) = answer K c
           in (if errno \<noteq> 0 then Some (Errno (ucast errno)) else None, [c])))"

text \<open>
  \<open>UnsafeUnmap\<close> is the one method that assigns to the fields of its receiver: it
  returns the error, the region after the call, and the kernel calls.
\<close>

definition UnsafeUnmap ::
  "('p::len, 'i::len) host \<Rightarrow> ('p, 'i) MMap
    \<Rightarrow> error option \<times> ('p, 'i) MMap \<times> ('p, 'i) kcall list" where
  "UnsafeUnmap K mmap =
     (let (err, tr) = UnsafeUnmapSlice K mmap (full_slice (MMap.Data mmap))
      in (err, mmap\<lparr>internalData := nil_slice, MMap.Data := nil_slice\<rparr>, tr))"

definition SyncSlice ::
  "('p::len, 'i::len) host \<Rightarrow> ('p, 'i) MMap \<Rightarrow> ('p, 'i) SliceHeader \<Rightarrow> 'i word
    \<Rightarrow> error option \<times> ('p, 'i) kcall list" where
  "SyncSlice K mmap region flags =
     (case checkSlice mmap region of
        Some err \<Rightarrow> (Some err, [])
      | None \<Rightarrow>
          (let rh = region;
               c = Syscall SYS_MSYNC (SliceHeader.Data rh) (scast (Len rh)) (ucast flags);
               (r1, r2, errno) = answer K c
           in (if errno \<noteq> 0 then Some (Errno (ucast errno)) else None, [c])))"

text \<open>\<open>Sync\<close> has no result type: what \<open>SyncSlice\<close> returns is dropped.\<close>

definition Sync ::
  "('p::len, 'i::len) host \<Rightarrow> ('p, 'i) MMap \<Rightarrow> 'i word \<Rightarrow> unit \<times> ('p, 'i) kcall list" where
  "Sync K mmap flags =
     (let (err, tr) = SyncSlice K mmap (full_slice (MMap.Data mmap)) flags
      in ((), tr))"

definition AdviseSlice ::
  "('p::len, 'i::len) host \<Rightarrow> ('p, 'i) MMap \<Rightarrow> ('p, 'i) SliceHeader \<Rightarrow> 'i word
    \<Rightarrow> error option \<times> ('p, 'i) kcall list" where
  "AdviseSlice K mmap region advice =
     (case checkSlice mmap region of
        Some err \<Rightarrow> (Some err, [])
      | None \<Rightarrow>
          (let rh = region;
               c = Syscall SYS_MADVISE (SliceHeader.Data rh) (scast (Len rh)) (ucast advice);
               (r1, r2, errno) = answer K c
           in (if errno \<noteq> 0 then Some (Errno (ucast errno)) else None, [c])))"

definition Advise ::
  "('p::len, 'i::len) host \<Rightarrow> ('p, 'i) MMap \<Rightarrow> 'i word
    \<Rightarrow> error option \<times> ('p, 'i) kcall list" where
  "Advise K mmap advice = AdviseSlice K mmap (full_slice (MMap.Data mmap)) advice"

definition ProtectSlice ::
  "('p::len, 'i::len) host \<Rightarrow> ('p, 'i) MMap \<Rightarrow> ('p, 'i) SliceHeader \<Rightarrow> 'i word
    \<Rightarrow> error option \<times> ('p, 'i) kcall list" where
  "ProtectSlice K mmap region prot =
     (case checkSlice mmap region of
        Some err \<Rightarrow> (Some err, [])
      | None \<Rightarrow>
          (let rh = region;
               c = Syscall SYS_MPROTECT (SliceHeader.Data rh) (scast (Len rh)) (ucast prot);
               (r1, r2, errno) = answer K c
           in (if errno \<noteq> 0 then Some (Errno (ucast errno)) else None, [c])))"

definition Protect ::
  "('p::len, 'i::len) host \<Rightarrow> ('p, 'i) MMap \<Rightarrow> 'i word
    \<Rightarrow> error option \<times> ('p, 'i) kcall list" where
  "Protect K mmap prot = ProtectSlice K mmap (full_slice (MMap.Data mmap)) prot"

definition LockSlice ::
  "('p::len, 'i::len) host \<Rightarrow> ('p, 'i) MMap \<Rightarrow> ('p, 'i) SliceHeader
    \<Rightarrow> error option \<times> ('p, 'i) kcall list" where
  "LockSlice K mmap region =
     (case checkSlice mmap region of
        Some err \<Rightarrow> (Some err, [])
      | None \<Rightarrow>
          (let rh = region;
               c = Syscall SYS_MLOCK (SliceHeader.Data rh) (scast (Len rh)) 0;
               (r1, r2, errno) = answer K c
           in (if errno \<noteq> 0 then Some (Errno (ucast errno)) else None, [c])))"

definition Lock ::
  "('p::len, 'i::len) host \<Rightarrow> ('p, 'i) MMap \<Rightarrow> error option \<times> ('p, 'i) kcall list" where
  "Lock K mmap = LockSlice K mmap (full_slice (MMap.Data mmap))"

definition UnlockSlice ::
  "('p::len, 'i::len) host \<Rightarrow> ('p, 'i) MMap \<Rightarrow> ('p, 'i) SliceHeader
    \<Rightarrow> error option \<times> ('p, 'i) kcall list" where
  "UnlockSlice K mmap region =
     (case checkSlice mmap region of
        Some err \<Rightarrow> (Some err, [])
      | None \<Rightarrow>
          (let rh = region;
               c = Syscall SYS_MUNLOCK (SliceHeader.Data rh) (scast (Len rh)) 0;
               (r1, r2, errno) = answer K c
           in (if errno \<noteq> 0 then Some (Errno (ucast errno)) else None, [c])))"

definition Unlock ::
  "('p::len, 'i::len) host \<Rightarrow> ('p, 'i) MMap \<Rightarrow> error option \<times> ('p, 'i) kcall list" where
  "Unlock K mmap = UnlockSlice K mmap (full_slice (MMap.Data mmap))"

text \<open>
  \<open>InCoreSlice\<close>. The length of the result is computed in \<open>int\<close>; \<open>make\<close> panics on a
  negative length and on a length above the allocation limit, and the division panics
  when the page size is zero.
\<close>

definition InCoreSlice ::
  "('p::len, 'i::len) host \<Rightarrow> ('p, 'i) MMap \<Rightarrow> ('p, 'i) SliceHeader
    \<Rightarrow> (error + ('p, 'i) SliceHeader) \<times> ('p, 'i) kcall list" where
  "InCoreSlice K mmap region =
     (case checkSlice mmap region of
        Some err \<Rightarrow> (Inl err, [])
      | None \<Rightarrow>
          (let pageSize = Getpagesize K
           in if pageSize = 0 then (Inl (RuntimePanic ''integer divide by zero''), [])
              else
                (let n = int_quo (Len region + pageSize - 1) pageSize
                 in if sint n < 0 \<or> make_limit K < nat (sint n)
                    then (Inl (RuntimePanic ''makeslice: len out of range''), [])
                    else
                      (let result = \<lparr>SliceHeader.Data = make_addr K n, Len = n, Cap = n\<rparr>;
                           rh = region;
                           resulth = result;
                           c = Syscall SYS_MINCORE (SliceHeader.Data rh) (scast (Len rh))
                                 (SliceHeader.Data resulth);
                           (r1, r2, errno) = answer K c
                       in if errno \<noteq> 0 then (Inl (Errno (ucast errno)), [c])
                          else (Inr result, [c])))))"

definition InCore ::
  "('p::len, 'i::len) host \<Rightarrow> ('p, 'i) MMap
    \<Rightarrow> (error + ('p, 'i) SliceHeader) \<times> ('p, 'i) kcall list" where
  "InCore K mmap = InCoreSlice K mmap (full_slice (MMap.Data mmap))"

section \<open>The slice-typed region of unnamed/part_001\<close>

text \<open>
  In \<open>unnamed/part_001\<close> the type is \<open>type MMap []uint8\<close>: the region is the slice
  itself, and the methods take no sub-region and make no bounds check. \<open>MapAt\<close> and
  \<open>InCore\<close> of that file:
\<close>

definition MapAt_part001 ::
  "('p::len, 'i::len) host \<Rightarrow> 'p word \<Rightarrow> 'i word \<Rightarrow> 64 word \<Rightarrow> 64 word \<Rightarrow> 'i word \<Rightarrow> 'i word
    \<Rightarrow> (error + ('p, 'i) SliceHeader) \<times> ('p, 'i) kcall list" where
  "MapAt_part001 K addr fd offset length0 prot flags =
     (let (sized, tr) =
            (if length0 = - 1
             then (let (stat_Size, errno) = Fstat_answer K fd
                   in if errno \<noteq> 0 then (Inl (Errno (scast errno)), [Fstat fd])
                      else (Inr stat_Size, [Fstat fd]))
             else (Inr length0, []))
      in case sized of
           Inl err \<Rightarrow> (Inl err, tr)
         | Inr length1 \<Rightarrow>
             (let c = Syscall6 SYS_MMAP addr (scast length1) (ucast prot) (ucast flags)
                        (scast fd) (scast offset);
                  (addr', r2, errno) = answer K c
              in if errno \<noteq> 0 then (Inl (Errno (ucast errno)), tr @ [c])
                 else
                   (let mmap = \<lparr>SliceHeader.Data = addr', Len = scast length1,
                                 Cap = scast length1\<rparr>
                    in (Inr mmap, tr @ [c]))))"

definition InCore_part001 ::
  "('p::len, 'i::len) host \<Rightarrow> ('p, 'i) SliceHeader
    \<Rightarrow> (error + ('p, 'i) SliceHeader) \<times> ('p, 'i) kcall list" where
  "InCore_part001 K mmap =
     (let pageSize = Getpagesize K
      in if pageSize = 0 then (Inl (RuntimePanic ''integer divide by zero''), [])
         else
           (let n = int_quo (Len mmap + pageSize - 1) pageSize
            in if sint n < 0 \<or> make_limit K < nat (sint n)
               then (Inl (RuntimePanic ''makeslice: len out of range''), [])
               else
                 (let result = \<lparr>SliceHeader.Data = make_addr K n, Len = n, Cap = n\<rparr>;
                      rh = mmap;
                      resulth = result;
                      c = Syscall SYS_MINCORE (SliceHeader.Data rh) (scast (Len rh))
                            (SliceHeader.Data resulth);
                      (r1, r2, errno) = answer K c
                  in if errno \<noteq> 0 then (Inl (Errno (ucast errno)), [c])
                     else (Inr result, [c]))))"

text \<open>
  The length that \<open>MapAt\<close> passes to the kernel and stores, after its first
  statement: the size that \<open>Fstat\<close> reports when the caller passed \<open>-1\<close>, the
  caller's value otherwise.
\<close>

definition mapped_length :: "('p::len, 'i::len) host \<Rightarrow> 'i word \<Rightarrow> 64 word \<Rightarrow> 64 word" where
  "mapped_length K fd length0 = (if length0 = - 1 then fst (Fstat_answer K fd) else length0)"

section \<open>Calling a method on a region\<close>

text \<open>
  The methods of \<open>*MMap\<close> in \<open>gommap.go\<close>, as data, so that a statement can range
  over all of them. \<open>invoke\<close> calls one on a region and returns what the method
  returns, the region after the call, and the kernel calls. Only \<open>UnsafeUnmap\<close>
  assigns to the receiver; every other method leaves it as it was.
\<close>

datatype ('s, 'u) operation =
  UnsafeUnmap_m | UnsafeUnmapSlice_m 's
  | Sync_m 'u | SyncSlice_m 's 'u
  | Advise_m 'u | AdviseSlice_m 's 'u
  | Protect_m 'u | ProtectSlice_m 's 'u
  | Lock_m | LockSlice_m 's
  | Unlock_m | UnlockSlice_m 's
  | InCore_m | InCoreSlice_m 's

datatype 's returned = Error "error option" | Nothing | Buffer "error + 's"

fun invoke ::
  "('p::len, 'i::len) host \<Rightarrow> (('p, 'i) SliceHeader, 'i word) operation \<Rightarrow> ('p, 'i) MMap
    \<Rightarrow> ('p, 'i) SliceHeader returned \<times> ('p, 'i) MMap \<times> ('p, 'i) kcall list" where
  "invoke K UnsafeUnmap_m mmap =
     (let (err, mmap', tr) = UnsafeUnmap K mmap in (Error err, mmap', tr))"
| "invoke K (UnsafeUnmapSlice_m region) mmap =
     (let (err, tr) = UnsafeUnmapSlice K mmap region in (Error err, mmap, tr))"
| "invoke K (Sync_m flags) mmap =
     (let (u, tr) = Sync K mmap flags in (Nothing, mmap, tr))"
| "invoke K (SyncSlice_m region flags) mmap =
     (let (err, tr) = SyncSlice K mmap region flags in (Error err, mmap, tr))"
| "invoke K (Advise_m advice) mmap =
     (let (err, tr) = Advise K mmap advice in (Error err, mmap, tr))"
| "invoke K (AdviseSlice_m region advice) mmap =
     (let (err, tr) = AdviseSlice K mmap region advice in (Error err, mmap, tr))"
| "invoke K (Protect_m prot) mmap =
     (let (err, tr) = Protect K mmap prot in (Error err, mmap, tr))"
| "invoke K (ProtectSlice_m region prot) mmap =
     (let (err, tr) = ProtectSlice K mmap region prot in (Error err, mmap, tr))"
| "invoke K Lock_m mmap =
     (let (err, tr) = Lock K mmap in (Error err, mmap, tr))"
| "invoke K (LockSlice_m region) mmap =
     (let (err, tr) = LockSlice K mmap region in (Error err, mmap, tr))"
| "invoke K Unlock_m mmap =
     (let (err, tr) = Unlock K mmap in (Error err, mmap, tr))"
| "invoke K (UnlockSlice_m region) mmap =
     (let (err, tr) = UnlockSlice K mmap region in (Error err, mmap, tr))"
| "invoke K InCore_m mmap =
     (let (res, tr) = InCore K mmap in (Buffer res, mmap, tr))"
| "invoke K (InCoreSlice_m region) mmap =
     (let (res, tr) = InCoreSlice K mmap region in (Buffer res, mmap, tr))"

section \<open>Concrete regions and kernels\<close>

text \<open>
  The 16-byte file of the tests, mapped at an address of a 64-bit address space with a
  32-bit \<open>int\<close>; the slice \<open>mmap.Data[7:10]\<close>; and the \<open>badRegion\<close> of
  \<open>TestRegionsRespectBoundaries\<close>, a slice of five bytes on the heap.
\<close>

definition file16 :: "(64, 32) SliceHeader" where
  "file16 = \<lparr>SliceHeader.Data = 0x7F0000001000, Len = 16, Cap = 16\<rparr>"

definition mmap16 :: "(64, 32) MMap" where
  "mmap16 = \<lparr>MMap.Data = file16, internalData = file16\<rparr>"

definition slice_7_10 :: "(64, 32) SliceHeader" where
  "slice_7_10 = \<lparr>SliceHeader.Data = 0x7F0000001007, Len = 3, Cap = 9\<rparr>"

definition badRegion :: "(64, 32) SliceHeader" where
  "badRegion = \<lparr>SliceHeader.Data = 0xC000010000, Len = 5, Cap = 5\<rparr>"

text \<open>
  A kernel that accepts every call (a mapping lands at the address above, the file has
  16 bytes, pages have 4096, \<open>make\<close> allocates any length an \<open>int\<close> of 32 bits can
  hold) and one that refuses every call with \<open>EIO\<close> and every
  \<open>Fstat\<close> with \<open>EBADF\<close>.
\<close>

definition kernel_ok :: "(64, 32) host" where
  "kernel_ok = \<lparr>answer = (\<lambda>c. (0x7F0000001000, 0, 0)), Fstat_answer = (\<lambda>fd. (16, 0)),
                 Getpagesize = 4096, make_addr = (\<lambda>n. 0xC000020000),
                 make_limit = 0x7FFFFFFF\<rparr>"

definition kernel_refusing :: "(64, 32) host" where
  "kernel_refusing = \<lparr>answer = (\<lambda>c. (- 1, 0, 5)), Fstat_answer = (\<lambda>fd. (0, 9)),
                       Getpagesize = 4096, make_addr = (\<lambda>n. 0xC000020000),
                 make_limit = 0x7FFFFFFF\<rparr>"

text \<open>
  A platform with 32-bit addresses and a 32-bit \<open>int\<close>, and a region of
  \<open>2^31 - 1\<close> bytes on it, the longest slice that \<open>int\<close> can describe.
\<close>

definition kernel32_ok :: "(32, 32) host" where
  "kernel32_ok = \<lparr>answer = (\<lambda>c. (0x40000000, 0, 0)), Fstat_answer = (\<lambda>fd. (0x7FFFFFFF, 0)),
                   Getpagesize = 4096, make_addr = (\<lambda>n. 0x10000000),
                   make_limit = 0x7FFFFFFF\<rparr>"

definition huge :: "(32, 32) SliceHeader" where
  "huge = \<lparr>SliceHeader.Data = 0x40000000, Len = 0x7FFFFFFF, Cap = 0x7FFFFFFF\<rparr>"

definition mmap_huge :: "(32, 32) MMap" where
  "mmap_huge = \<lparr>MMap.Data = huge, internalData = huge\<rparr>"

section \<open>Bounds validation\<close>

lemma checkSlice_None_iff:
  "(checkSlice m r = None) =
     (SliceHeader.Data (internalData m) \<le> SliceHeader.Data r
      \<and> SliceHeader.Data r + scast (Len r)
          \<le> SliceHeader.Data (internalData m) + scast (Len (internalData m)))"
  by (auto simp add: checkSlice_def Let_def)

lemma checkSlice_Some:
  "checkSlice m r = Some e \<Longrightarrow> e = NewError ''Region must be a slice of mmap.Data''"
  by (simp add: checkSlice_def Let_def split: if_splits)

text \<open>
  Address plus length in \<open>uintptr\<close> is the sum of the numbers as long as the slice
  has a length that is not negative and ends inside the address space.
\<close>

lemma uint_add_scast:
  fixes x :: "'p::len word" and l :: "'i::len word"
  assumes "0 \<le> sint l" and "uint x + sint l < 2 ^ LENGTH('p)"
  shows "uint (x + scast l) = uint x + sint l"
proof -
  have "x + scast l = word_of_int (uint x + sint l)"
    by simp
  then have "uint (x + scast l) = (uint x + sint l) mod 2 ^ LENGTH('p)"
    by (simp only: uint_word_of_int)
  then show ?thesis
    using assms by simp
qed

text \<open>
  C1. For every region, whose bounds are the address and length of \<open>internalData\<close>,
  and every candidate sub-region, \<open>checkSlice\<close> accepts (returns no error) if and only
  if the sub-region's address is at least the base address and the sub-region's address
  plus its length is at most the base address plus the region's length. The first
  conjunct states this with the sums the program computes, in \<open>uintptr\<close>. The second
  states it with the sums of the numbers, for slices that have a length that is not
  negative and end inside the address space, where the two sums agree.
\<close>

theorem checkSlice_accepts_iff_contained:
  fixes m :: "('p::len, 'i::len) MMap"
  shows "(checkSlice m r = None \<longleftrightarrow>
            SliceHeader.Data (internalData m) \<le> SliceHeader.Data r
            \<and> SliceHeader.Data r + scast (Len r)
                \<le> SliceHeader.Data (internalData m) + scast (Len (internalData m)))
    \<and> (0 \<le> sint (Len r) \<and> 0 \<le> sint (Len (internalData m))
        \<and> uint (SliceHeader.Data r) + sint (Len r) < 2 ^ LENGTH('p)
        \<and> uint (SliceHeader.Data (internalData m)) + sint (Len (internalData m))
            < 2 ^ LENGTH('p)
       \<longrightarrow> (checkSlice m r = None \<longleftrightarrow>
              uint (SliceHeader.Data (internalData m)) \<le> uint (SliceHeader.Data r)
              \<and> uint (SliceHeader.Data r) + sint (Len r)
                  \<le> uint (SliceHeader.Data (internalData m))
                     + sint (Len (internalData m))))"
  by (auto simp add: checkSlice_None_iff word_le_def uint_add_scast)

theorem checkSlice_accepts_iff_contained_witness:
  "0 \<le> sint (Len slice_7_10) \<and> 0 \<le> sint (Len (internalData mmap16))
    \<and> uint (SliceHeader.Data slice_7_10) + sint (Len slice_7_10) < 2 ^ 64
    \<and> uint (SliceHeader.Data (internalData mmap16)) + sint (Len (internalData mmap16))
        < 2 ^ 64
    \<and> checkSlice mmap16 slice_7_10 = None
    \<and> uint (SliceHeader.Data (internalData mmap16)) \<le> uint (SliceHeader.Data slice_7_10)
    \<and> uint (SliceHeader.Data slice_7_10) + sint (Len slice_7_10)
        \<le> uint (SliceHeader.Data (internalData mmap16)) + sint (Len (internalData mmap16))"
  using checkSlice_accepts_iff_contained [of mmap16 slice_7_10]
  by (simp add: mmap16_def file16_def slice_7_10_def)

lemma checkSlice_badRegion:
  "checkSlice mmap16 badRegion = Some (NewError ''Region must be a slice of mmap.Data'')"
  by (simp add: checkSlice_def mmap16_def file16_def badRegion_def)

text \<open>
  C2. For each of the seven scoped operations and every sub-region that \<open>checkSlice\<close>
  rejects, the operation returns the error of \<open>checkSlice\<close>, the containment error,
  and its list of kernel calls is empty. The seven operations apply the same check: one
  rejection fails them all.
\<close>

theorem scoped_ops_reject_without_kernel_call:
  assumes "checkSlice m r = Some e"
  shows "e = NewError ''Region must be a slice of mmap.Data''
    \<and> UnsafeUnmapSlice K m r = (Some e, [])
    \<and> SyncSlice K m r flags = (Some e, [])
    \<and> AdviseSlice K m r advice = (Some e, [])
    \<and> ProtectSlice K m r prot = (Some e, [])
    \<and> LockSlice K m r = (Some e, [])
    \<and> UnlockSlice K m r = (Some e, [])
    \<and> InCoreSlice K m r = (Inl e, [])"
  using assms checkSlice_Some [OF assms]
  by (simp add: UnsafeUnmapSlice_def SyncSlice_def AdviseSlice_def ProtectSlice_def
      LockSlice_def UnlockSlice_def InCoreSlice_def)

theorem scoped_ops_reject_without_kernel_call_witness:
  "checkSlice mmap16 badRegion = Some (NewError ''Region must be a slice of mmap.Data'')
    \<and> UnsafeUnmapSlice kernel_ok mmap16 badRegion
        = (Some (NewError ''Region must be a slice of mmap.Data''), [])
    \<and> SyncSlice kernel_ok mmap16 badRegion 4
        = (Some (NewError ''Region must be a slice of mmap.Data''), [])
    \<and> AdviseSlice kernel_ok mmap16 badRegion 0
        = (Some (NewError ''Region must be a slice of mmap.Data''), [])
    \<and> ProtectSlice kernel_ok mmap16 badRegion 1
        = (Some (NewError ''Region must be a slice of mmap.Data''), [])
    \<and> LockSlice kernel_ok mmap16 badRegion
        = (Some (NewError ''Region must be a slice of mmap.Data''), [])
    \<and> UnlockSlice kernel_ok mmap16 badRegion
        = (Some (NewError ''Region must be a slice of mmap.Data''), [])
    \<and> InCoreSlice kernel_ok mmap16 badRegion
        = (Inl (NewError ''Region must be a slice of mmap.Data''), [])"
  using scoped_ops_reject_without_kernel_call [OF checkSlice_badRegion, of kernel_ok 4 0 1]
    checkSlice_badRegion
  by simp

section \<open>What an accepted operation sends to the kernel\<close>

lemma UnsafeUnmapSlice_accepted:
  "checkSlice m r = None \<Longrightarrow>
     UnsafeUnmapSlice K m r =
       (if snd (snd (answer K (Syscall SYS_MUNMAP (SliceHeader.Data r) (scast (Len r)) 0))) \<noteq> 0
        then Some (Errno (ucast (snd (snd (answer K
               (Syscall SYS_MUNMAP (SliceHeader.Data r) (scast (Len r)) 0))))))
        else None,
        [Syscall SYS_MUNMAP (SliceHeader.Data r) (scast (Len r)) 0])"
  by (simp add: UnsafeUnmapSlice_def Let_def split: prod.splits)






section \<open>The length of the residency buffer\<close>

lemma sint_word_of_int_in_range:
  assumes "- (2 ^ (LENGTH('a::len) - 1)) \<le> k" and "k < 2 ^ (LENGTH('a) - 1)"
  shows "sint (word_of_int k :: 'a word) = k"
  using assms by (simp add: sint_sbintrunc' signed_take_bit_int_eq_self)


lemma sdiv_nonneg:
  fixes a b :: int
  assumes "0 \<le> a" and "0 < b"
  shows "a sdiv b = a div b"
  using assms by (simp add: signed_divide_int_def sgn_if)

lemma div_le_self_nonneg:
  fixes x k :: int
  shows "0 \<le> x \<Longrightarrow> x div k \<le> x"
  by (cases "x = 0") (simp_all add: int_div_le_self)


text \<open>That quotient is the number of pages: the least \<open>q\<close> with \<open>l \<le> q * p\<close>.\<close>

lemma ceil_div_int:
  fixes l p :: int
  assumes "0 < p"
  shows "l \<le> ((l + p - 1) div p) * p \<and> ((l + p - 1) div p - 1) * p < l"
proof -
  define q where "q = (l + p - 1) div p"
  define r where "r = (l + p - 1) mod p"
  have "q * p + r = l + p - 1"
    by (simp add: q_def r_def)
  moreover have "0 \<le> r" and "r < p"
    using assms by (simp_all add: r_def)
  ultimately show ?thesis
    unfolding q_def [symmetric] by (simp add: algebra_simps)
qed


text \<open>
  C8. The claim: for every valid scope of length \<open>L\<close> and page size \<open>P\<close>, the
  residency query allocates a buffer of \<open>ceil(L / P)\<close> bytes and returns it on success.
  The program computes \<open>(len(region) + pageSize - 1) / pageSize\<close> in \<open>int\<close>. For the
  region of \<open>2^31 - 1\<close> bytes under a 32-bit \<open>int\<close> and pages of 4096 bytes the sum
  wraps around to a negative number, \<open>make\<close> panics, and no buffer is made (the claim asks
  for 524288 bytes). The region is the one that \<open>Map\<close> returns for a file of that
  size, and the slice passes \<open>checkSlice\<close>. The same holds for \<open>InCore\<close> of
  \<open>unnamed/part_001\<close>. (Where the sum stays within \<open>int\<close> and the quotient within
  the allocation limit, the length is the one the claim states:
  \<open>InCoreSlice_in_range\<close> and \<open>ceil_div_int\<close>.)
\<close>

theorem InCore_length_overflows:
  "Map kernel32_ok 3 1 2
     = (Inr mmap_huge, [Fstat 3, Syscall6 SYS_MMAP 0 0x7FFFFFFF 1 2 3 0])
   \<and> checkSlice mmap_huge huge = None
   \<and> InCoreSlice kernel32_ok mmap_huge huge
       = (Inl (RuntimePanic ''makeslice: len out of range''), [])
   \<and> InCore kernel32_ok mmap_huge = (Inl (RuntimePanic ''makeslice: len out of range''), [])
   \<and> InCore_part001 kernel32_ok huge
       = (Inl (RuntimePanic ''makeslice: len out of range''), [])"
  by (simp add: Map_def MapAt_def Let_def InCore_def InCoreSlice_def InCore_part001_def
      checkSlice_def full_slice_def mmap_huge_def huge_def kernel32_ok_def int_quo_def
      signed_divide_int_def)

section \<open>Whole-region operations\<close>


text \<open>
  C6. The claim: every whole-region operation returns the same result as the scoped
  operation on the full view of \<open>Data\<close>. \<open>Advise\<close>, \<open>Protect\<close>, \<open>Lock\<close>,
  \<open>Unlock\<close>, \<open>InCore\<close> and \<open>UnsafeUnmap\<close> do (\<open>whole_region_delegation\<close>), and
  \<open>Sync\<close> issues the same kernel call. But \<open>Sync\<close> of \<open>gommap.go\<close> returns nothing:
  when the kernel refuses the \<open>msync\<close>, \<open>SyncSlice\<close> on the full view returns the
  error number and \<open>Sync\<close> drops it.
\<close>

theorem Sync_drops_the_error_of_SyncSlice:
  "SyncSlice kernel_refusing mmap16 (full_slice (MMap.Data mmap16)) 4
     = (Some (Errno 5), [Syscall SYS_MSYNC 0x7F0000001000 16 4])
   \<and> Sync kernel_refusing mmap16 4 = ((), [Syscall SYS_MSYNC 0x7F0000001000 16 4])"
  by (simp add: Sync_def SyncSlice_def checkSlice_def full_slice_def mmap16_def file16_def
      kernel_refusing_def)

section \<open>Unmapping\<close>

lemma UnsafeUnmap_state:
  "fst (snd (UnsafeUnmap K m)) = m\<lparr>internalData := nil_slice, MMap.Data := nil_slice\<rparr>"
  by (simp add: UnsafeUnmap_def split: prod.splits)

lemma invoke_unchanged:
  "op \<noteq> UnsafeUnmap_m \<Longrightarrow> fst (snd (invoke K op m)) = m"
  by (cases op) (simp_all split: prod.splits)

lemma invoke_UnsafeUnmap_state:
  "fst (snd (invoke K UnsafeUnmap_m m)) = \<lparr>MMap.Data = nil_slice, internalData = nil_slice\<rparr>"
proof -
  have "fst (snd (invoke K UnsafeUnmap_m m)) = fst (snd (UnsafeUnmap K m))"
    by (simp split: prod.splits)
  then show ?thesis
    by (simp add: UnsafeUnmap_state)
qed

lemma invoke_UnsafeUnmapSlice_calls:
  "snd (snd (invoke K (UnsafeUnmapSlice_m r) m)) = snd (UnsafeUnmapSlice K m r)"
  by (simp split: prod.splits)

text \<open>
  C7. \<open>UnsafeUnmapSlice\<close> on a sub-region leaves the region as it was, both \<open>Data\<close>
  and \<open>internalData\<close> (the record has no other field), and, when the sub-region
  passes the check, sends the \<open>munmap\<close> of exactly that sub-region to the kernel.
  \<open>UnsafeUnmap\<close> leaves both fields \<open>nil\<close>.
\<close>

theorem UnsafeUnmapSlice_keeps_fields_UnsafeUnmap_clears:
  "fst (snd (invoke K (UnsafeUnmapSlice_m r) m)) = m
   \<and> (checkSlice m r = None \<longrightarrow>
        snd (snd (invoke K (UnsafeUnmapSlice_m r) m))
          = [Syscall SYS_MUNMAP (SliceHeader.Data r) (scast (Len r)) 0])
   \<and> fst (snd (invoke K UnsafeUnmap_m m))
       = \<lparr>MMap.Data = nil_slice, internalData = nil_slice\<rparr>"
  by (simp add: invoke_unchanged invoke_UnsafeUnmap_state invoke_UnsafeUnmapSlice_calls
      UnsafeUnmapSlice_accepted del: invoke.simps)

theorem UnsafeUnmapSlice_keeps_fields_UnsafeUnmap_clears_witness:
  "checkSlice mmap16 slice_7_10 = None
   \<and> fst (snd (invoke kernel_ok (UnsafeUnmapSlice_m slice_7_10) mmap16)) = mmap16
   \<and> snd (snd (invoke kernel_ok (UnsafeUnmapSlice_m slice_7_10) mmap16))
       = [Syscall SYS_MUNMAP 0x7F0000001007 3 0]
   \<and> fst (snd (invoke kernel_ok UnsafeUnmap_m mmap16))
       = \<lparr>MMap.Data = nil_slice, internalData = nil_slice\<rparr>"
proof -
  have ok: "checkSlice mmap16 slice_7_10 = None"
    by (simp add: checkSlice_def mmap16_def file16_def slice_7_10_def)
  have r: "SliceHeader.Data slice_7_10 = 0x7F0000001007" "Len slice_7_10 = 3"
    by (simp_all add: slice_7_10_def)
  show ?thesis
    using UnsafeUnmapSlice_keeps_fields_UnsafeUnmap_clears [of kernel_ok slice_7_10 mmap16] ok
    by (simp add: r del: invoke.simps)
qed

section \<open>A region after the whole-region unmap\<close>

lemma nil_slice_sel [simp]:
  "SliceHeader.Data (nil_slice :: ('p::len, 'i::len) SliceHeader) = 0"
  "Len (nil_slice :: ('p::len, 'i::len) SliceHeader) = 0"
  by (simp_all add: nil_slice_def)







section \<open>What the bounds check reads\<close>

lemma checkSlice_Data_update:
  "checkSlice (m\<lparr>MMap.Data := d\<rparr>) r = checkSlice m r"
  by (simp add: checkSlice_def)

lemma MapAt_internalData:
  "fst (MapAt K addr fd offset length0 prot flags) = Inr m' \<Longrightarrow> internalData m' = MMap.Data m'"
  by (auto simp add: MapAt_def Let_def split: prod.splits if_splits sum.splits)

lemma MapAt_internalData_Len:
  assumes "fst (MapAt K addr fd offset length0 prot flags) = Inr m'"
  shows "Len (internalData m') = scast (mapped_length K fd length0)"
  using assms
  by (auto simp add: MapAt_def mapped_length_def Let_def split: prod.splits if_splits sum.splits)

lemma Map_file16:
  "Map kernel_ok 3 3 1
     = (Inr mmap16, [Fstat 3, Syscall6 SYS_MMAP 0 16 3 1 3 0])"
  by (simp add: Map_def MapAt_def Let_def kernel_ok_def mmap16_def file16_def)

text \<open>
  C9. \<open>checkSlice\<close> compares the sub-region with the bounds of \<open>internalData\<close>,
  and not with the public field \<open>Data\<close>: whatever slice has been assigned to
  \<open>Data\<close>, it accepts a sub-region if and only if the sub-region starts at or after
  the address of \<open>internalData\<close> and ends at or before its end; when it does not
  accept, it returns the containment error. So assigning to \<open>Data\<close> leaves its
  verdict on every sub-region as it was. Every method but \<open>UnsafeUnmap\<close> leaves
  \<open>internalData\<close> as it was, so the verdict is the same after any such call on a
  region whose \<open>Data\<close> was reassigned. The bounds are recorded by \<open>MapAt\<close>, which
  sets \<open>internalData\<close> to the slice it stores in \<open>Data\<close>, of the length it mapped.
\<close>

theorem validation_reads_internalData_only:
  "(checkSlice (m\<lparr>MMap.Data := d\<rparr>) r = None \<longleftrightarrow>
      SliceHeader.Data (internalData m) \<le> SliceHeader.Data r
      \<and> SliceHeader.Data r + scast (Len r)
          \<le> SliceHeader.Data (internalData m) + scast (Len (internalData m)))
   \<and> (checkSlice (m\<lparr>MMap.Data := d\<rparr>) r = None
        \<or> checkSlice (m\<lparr>MMap.Data := d\<rparr>) r
            = Some (NewError ''Region must be a slice of mmap.Data''))
   \<and> checkSlice (m\<lparr>MMap.Data := d\<rparr>) r = checkSlice m r
   \<and> (op \<noteq> UnsafeUnmap_m \<longrightarrow>
        internalData (fst (snd (invoke K op m))) = internalData m
        \<and> checkSlice (fst (snd (invoke K op (m\<lparr>MMap.Data := d\<rparr>)))) r = checkSlice m r)
   \<and> (fst (MapAt K' addr fd offset length0 prot flags) = Inr m' \<longrightarrow>
        internalData m' = MMap.Data m'
        \<and> Len (internalData m') = scast (mapped_length K' fd length0))"
proof (intro conjI impI)
  show "checkSlice (m\<lparr>MMap.Data := d\<rparr>) r = None \<longleftrightarrow>
      SliceHeader.Data (internalData m) \<le> SliceHeader.Data r
      \<and> SliceHeader.Data r + scast (Len r)
          \<le> SliceHeader.Data (internalData m) + scast (Len (internalData m))"
    by (simp only: checkSlice_Data_update checkSlice_None_iff)
next
  show "checkSlice (m\<lparr>MMap.Data := d\<rparr>) r = None
        \<or> checkSlice (m\<lparr>MMap.Data := d\<rparr>) r
            = Some (NewError ''Region must be a slice of mmap.Data'')"
    by (simp add: checkSlice_def Let_def)
next
  show "checkSlice (m\<lparr>MMap.Data := d\<rparr>) r = checkSlice m r"
    by (rule checkSlice_Data_update)
next
  assume "op \<noteq> UnsafeUnmap_m"
  then show "internalData (fst (snd (invoke K op m))) = internalData m"
    by (simp add: invoke_unchanged del: invoke.simps)
next
  assume "op \<noteq> UnsafeUnmap_m"
  then show "checkSlice (fst (snd (invoke K op (m\<lparr>MMap.Data := d\<rparr>)))) r = checkSlice m r"
    by (simp add: invoke_unchanged checkSlice_Data_update del: invoke.simps)
next
  assume "fst (MapAt K' addr fd offset length0 prot flags) = Inr m'"
  then show "internalData m' = MMap.Data m'"
    by (rule MapAt_internalData)
next
  assume "fst (MapAt K' addr fd offset length0 prot flags) = Inr m'"
  then show "Len (internalData m') = scast (mapped_length K' fd length0)"
    by (rule MapAt_internalData_Len)
qed

theorem validation_reads_internalData_only_witness:
  "checkSlice (mmap16\<lparr>MMap.Data := badRegion\<rparr>) slice_7_10 = None
   \<and> checkSlice (mmap16\<lparr>MMap.Data := badRegion\<rparr>) badRegion
       = Some (NewError ''Region must be a slice of mmap.Data'')
   \<and> checkSlice mmap16 badRegion = Some (NewError ''Region must be a slice of mmap.Data'')
   \<and> Lock_m \<noteq> UnsafeUnmap_m
   \<and> internalData (fst (snd (invoke kernel_ok Lock_m mmap16))) = file16
   \<and> checkSlice (fst (snd (invoke kernel_ok Lock_m (mmap16\<lparr>MMap.Data := badRegion\<rparr>))))
        badRegion = Some (NewError ''Region must be a slice of mmap.Data'')
   \<and> checkSlice (fst (snd (invoke kernel_ok Lock_m (mmap16\<lparr>MMap.Data := badRegion\<rparr>))))
        slice_7_10 = None
   \<and> fst (MapAt kernel_ok 0 3 0 (- 1) 3 1) = Inr mmap16
   \<and> internalData mmap16 = MMap.Data mmap16
   \<and> Len (internalData mmap16) = 16"
proof -
  note inside = validation_reads_internalData_only [where m = mmap16 and d = badRegion
      and r = slice_7_10 and op = Lock_m and K = kernel_ok and K' = kernel_ok and addr = 0
      and fd = 3 and offset = 0 and ?length0.0 = "- 1" and prot = 3 and flags = 1
      and m' = mmap16]
  note outside = validation_reads_internalData_only [where m = mmap16 and d = badRegion
      and r = badRegion and op = Lock_m and K = kernel_ok and K' = kernel_ok and addr = 0
      and fd = 3 and offset = 0 and ?length0.0 = "- 1" and prot = 3 and flags = 1
      and m' = mmap16]
  have made: "fst (MapAt kernel_ok 0 3 0 (- 1) 3 1) = Inr mmap16"
    using Map_file16 by (simp add: Map_def)
  have i: "internalData mmap16 = file16"
    by (simp add: mmap16_def)
  have len: "scast (mapped_length kernel_ok 3 (- 1)) = (16 :: 32 word)"
    by (simp add: mapped_length_def kernel_ok_def)
  have in_bounds: "SliceHeader.Data (internalData mmap16) \<le> SliceHeader.Data slice_7_10
      \<and> SliceHeader.Data slice_7_10 + scast (Len slice_7_10)
          \<le> SliceHeader.Data (internalData mmap16) + scast (Len (internalData mmap16))"
    by (simp add: mmap16_def file16_def slice_7_10_def)
  have out_of_bounds: "\<not> (SliceHeader.Data (internalData mmap16) \<le> SliceHeader.Data badRegion
      \<and> SliceHeader.Data badRegion + scast (Len badRegion)
          \<le> SliceHeader.Data (internalData mmap16) + scast (Len (internalData mmap16)))"
    by (simp add: mmap16_def file16_def badRegion_def)
  have accepted: "checkSlice (mmap16\<lparr>MMap.Data := badRegion\<rparr>) slice_7_10 = None"
    using inside in_bounds by (auto simp del: invoke.simps)
  have rejected: "checkSlice (mmap16\<lparr>MMap.Data := badRegion\<rparr>) badRegion
                    = Some (NewError ''Region must be a slice of mmap.Data'')"
    using outside out_of_bounds by (auto simp del: invoke.simps)
  have same_in: "checkSlice (mmap16\<lparr>MMap.Data := badRegion\<rparr>) slice_7_10
                   = checkSlice mmap16 slice_7_10"
    using inside by (auto simp del: invoke.simps)
  have same_out: "checkSlice (mmap16\<lparr>MMap.Data := badRegion\<rparr>) badRegion
                    = checkSlice mmap16 badRegion"
    using outside by (auto simp del: invoke.simps)
  have ne: "Lock_m \<noteq> (UnsafeUnmap_m :: ((64, 32) SliceHeader, 32 word) operation)"
    by simp
  have kept: "internalData (fst (snd (invoke kernel_ok Lock_m mmap16))) = internalData mmap16"
    using inside ne by (auto simp del: invoke.simps)
  have after_in: "checkSlice (fst (snd (invoke kernel_ok Lock_m
                     (mmap16\<lparr>MMap.Data := badRegion\<rparr>)))) slice_7_10
                   = checkSlice mmap16 slice_7_10"
    using inside ne by (auto simp del: invoke.simps)
  have after_out: "checkSlice (fst (snd (invoke kernel_ok Lock_m
                      (mmap16\<lparr>MMap.Data := badRegion\<rparr>)))) badRegion
                    = checkSlice mmap16 badRegion"
    using outside ne by (auto simp del: invoke.simps)
  have recorded: "internalData mmap16 = MMap.Data mmap16
      \<and> Len (internalData mmap16) = scast (mapped_length kernel_ok 3 (- 1))"
    using inside made by (auto simp del: invoke.simps)
  show ?thesis
    using accepted rejected same_in same_out ne kept after_in after_out recorded made i len
    by (simp del: invoke.simps)
qed

section \<open>The offset of the mapping call\<close>

lemma uint_mult_4096_mod:
  fixes w :: "64 word"
  shows "uint (w * 4096) mod 4096 = 0"
proof -
  have "uint (w * 4096) = (uint w * 4096) mod 2 ^ 64"
    by (simp add: uint_word_ariths)
  also have "\<dots> mod 4096 = (uint w * 4096) mod 4096"
    by (rule mod_mod_cancel) simp
  finally show ?thesis
    by simp
qed

lemma sint_mod_4096:
  fixes x :: "64 word"
  shows "sint x mod 4096 = uint x mod 4096"
proof -
  have "uint x = sint x mod 2 ^ 64"
    by (simp add: uint_sint take_bit_eq_mod)
  then have "uint x mod 4096 = (sint x mod 2 ^ 64) mod 4096"
    by simp
  also have "\<dots> = sint x mod 4096"
    by (rule mod_mod_cancel) simp
  finally show ?thesis
    by simp
qed

lemma part000_misaligned:
  fixes K :: "('p::len, 'i::len) host"
  assumes "sint offset mod 4096 \<noteq> 0"
  shows "mmap_syscall_part000 K addr length0 prot flags fd offset = ((0, EINVAL), [])"
proof -
  have "offset \<noteq> w * 4096" for w :: "64 word"
  proof
    assume "offset = w * 4096"
    then have "uint offset mod 4096 = 0"
      by (simp only: uint_mult_4096_mod)
    then show False
      using assms by (simp only: sint_mod_4096)
  qed
  then show ?thesis
    by (simp only: mmap_syscall_part000_def Let_def not_False_eq_True if_True)
qed

lemma part000_aligned:
  fixes K :: "('p::len, 'i::len) host"
  assumes "sint offset mod 4096 = 0" and "0 \<le> sint offset"
    and "sint offset div 4096 < 2 ^ LENGTH('p)"
  shows "mmap_syscall_part000 K addr length0 prot flags fd offset
          = ((fst (answer K (Syscall6 SYS_MMAP2 addr length0 prot flags fd
                      (word_of_int (sint offset div 4096)))),
              snd (snd (answer K (Syscall6 SYS_MMAP2 addr length0 prot flags fd
                      (word_of_int (sint offset div 4096)))))),
             [Syscall6 SYS_MMAP2 addr length0 prot flags fd
                (word_of_int (sint offset div 4096))])"
proof -
  define q where "q = sint offset div 4096"
  have q0: "0 \<le> q"
    using assms(2) by (simp add: q_def)
  have "q \<le> sint offset"
    unfolding q_def using assms(2) by (rule div_le_self_nonneg)
  then have q1: "q < 2 ^ (LENGTH(64) - 1)"
    using sint_lt [of offset] by linarith
  have s4096: "sint (4096 :: 64 word) = 4096"
    by simp
  have quo: "int_quo offset 4096 = word_of_int q"
    using assms(2) by (simp only: int_quo_def s4096 q_def sdiv_nonneg)
  have sq: "sint (word_of_int q :: 64 word) = q"
    using q0 q1 by (intro sint_word_of_int_in_range) simp_all
  have page: "(scast (int_quo offset 4096) :: 'p word) = word_of_int q"
    by (simp only: quo sq scast_eq)
  have q2: "q < 2 ^ LENGTH('p)"
    using assms(3) by (simp only: q_def)
  have "uint (word_of_int q :: 'p word) = q mod 2 ^ LENGTH('p)"
    by (simp only: uint_word_of_int)
  also have "\<dots> = q"
    using q0 q2 by (rule mod_pos_pos_trivial)
  finally have "uint (word_of_int q :: 'p word) = q" .
  then have widened: "(ucast (word_of_int q :: 'p word) :: 64 word) = word_of_int q"
    by (simp only: ucast_eq)
  have "q * 4096 = sint offset"
    using assms(1) unfolding q_def by (metis add.right_neutral div_mult_mod_eq)
  then have "(word_of_int q :: 64 word) * 4096 = word_of_int (sint offset)"
    by (metis of_int_mult of_int_numeral)
  then have eq: "offset = (ucast (word_of_int q :: 'p word) :: 64 word) * 4096"
    by (simp only: widened of_int_sint scast_id)
  show ?thesis
    unfolding mmap_syscall_part000_def Let_def page q_def [symmetric]
    using eq by (simp only: not_True_eq_False if_False split: prod.splits) simp
qed

lemma amd64_passes_offset:
  fixes K :: "(64, 'i::len) host"
  shows "mmap_syscall_amd64 K addr length0 prot flags fd offset
          = ((fst (answer K (Syscall6 SYS_MMAP addr length0 prot flags fd offset)),
              snd (snd (answer K (Syscall6 SYS_MMAP addr length0 prot flags fd offset)))),
             [Syscall6 SYS_MMAP addr length0 prot flags fd offset])"
  by (simp add: mmap_syscall_amd64_def Let_def split: prod.splits)

text \<open>
  C4. The adapter of \<open>unnamed/part_000\<close> calls \<open>SYS_MMAP2\<close>, whose offset counts
  pages of 4096 bytes. For every byte offset that is not a multiple of 4096 it returns
  \<open>(0, EINVAL)\<close> and issues no kernel call. For an offset that is a multiple of 4096
  (not negative, with a page number that fits \<open>uintptr\<close>) it issues one call whose last
  argument is the page number, offset divided by 4096, and returns the kernel's address
  and error number. The adapter of \<open>mmap_linux_amd64.go\<close>, where \<open>uintptr\<close> has 64
  bits, makes no check: it always issues one \<open>SYS_MMAP\<close> call with the byte offset
  itself.
\<close>

theorem mmap_syscall_offset_convention:
  fixes K :: "('p::len, 'i::len) host" and K64 :: "(64, 'j::len) host"
  shows "(sint offset mod 4096 \<noteq> 0 \<longrightarrow>
            mmap_syscall_part000 K addr length0 prot flags fd offset = ((0, EINVAL), []))
    \<and> (sint offset mod 4096 = 0 \<and> 0 \<le> sint offset
          \<and> sint offset div 4096 < 2 ^ LENGTH('p) \<longrightarrow>
            mmap_syscall_part000 K addr length0 prot flags fd offset
              = ((fst (answer K (Syscall6 SYS_MMAP2 addr length0 prot flags fd
                          (word_of_int (sint offset div 4096)))),
                  snd (snd (answer K (Syscall6 SYS_MMAP2 addr length0 prot flags fd
                          (word_of_int (sint offset div 4096)))))),
                 [Syscall6 SYS_MMAP2 addr length0 prot flags fd
                    (word_of_int (sint offset div 4096))]))
    \<and> mmap_syscall_amd64 K64 addr64 length64 prot64 flags64 fd64 offset
        = ((fst (answer K64 (Syscall6 SYS_MMAP addr64 length64 prot64 flags64 fd64 offset)),
            snd (snd (answer K64
                   (Syscall6 SYS_MMAP addr64 length64 prot64 flags64 fd64 offset)))),
           [Syscall6 SYS_MMAP addr64 length64 prot64 flags64 fd64 offset])"
proof (intro conjI impI)
  assume "sint offset mod 4096 \<noteq> 0"
  then show "mmap_syscall_part000 K addr length0 prot flags fd offset = ((0, EINVAL), [])"
    by (rule part000_misaligned)
next
  assume "sint offset mod 4096 = 0 \<and> 0 \<le> sint offset
    \<and> sint offset div 4096 < 2 ^ LENGTH('p)"
  then have "sint offset mod 4096 = 0" and "0 \<le> sint offset"
    and "sint offset div 4096 < 2 ^ LENGTH('p)"
    by simp_all
  then show "mmap_syscall_part000 K addr length0 prot flags fd offset
      = ((fst (answer K (Syscall6 SYS_MMAP2 addr length0 prot flags fd
                  (word_of_int (sint offset div 4096)))),
          snd (snd (answer K (Syscall6 SYS_MMAP2 addr length0 prot flags fd
                  (word_of_int (sint offset div 4096)))))),
         [Syscall6 SYS_MMAP2 addr length0 prot flags fd
            (word_of_int (sint offset div 4096))])"
    by (rule part000_aligned)
next
  show "mmap_syscall_amd64 K64 addr64 length64 prot64 flags64 fd64 offset
      = ((fst (answer K64 (Syscall6 SYS_MMAP addr64 length64 prot64 flags64 fd64 offset)),
          snd (snd (answer K64
                 (Syscall6 SYS_MMAP addr64 length64 prot64 flags64 fd64 offset)))),
         [Syscall6 SYS_MMAP addr64 length64 prot64 flags64 fd64 offset])"
    by (rule amd64_passes_offset)
qed

theorem mmap_syscall_offset_convention_witness:
  "sint (4097 :: 64 word) mod 4096 \<noteq> 0
   \<and> mmap_syscall_part000 kernel32_ok 0 16 3 1 3 4097 = ((0, 22), [])
   \<and> sint (8192 :: 64 word) mod 4096 = 0 \<and> 0 \<le> sint (8192 :: 64 word)
   \<and> sint (8192 :: 64 word) div 4096 < 2 ^ 32
   \<and> mmap_syscall_part000 kernel32_ok 0 16 3 1 3 8192
       = ((0x40000000, 0), [Syscall6 SYS_MMAP2 0 16 3 1 3 2])
   \<and> mmap_syscall_amd64 kernel_ok 0 16 3 1 3 4097
       = ((0x7F0000001000, 0), [Syscall6 SYS_MMAP 0 16 3 1 3 4097])"
proof -
  have a: "sint (4097 :: 64 word) mod 4096 \<noteq> 0"
    by simp
  have b: "sint (8192 :: 64 word) mod 4096 = 0" "0 \<le> sint (8192 :: 64 word)"
    "sint (8192 :: 64 word) div 4096 < 2 ^ LENGTH(32)"
    by simp_all
  have c: "(word_of_int (sint (8192 :: 64 word) div 4096) :: 32 word) = 2"
    by simp
  have k: "answer kernel32_ok = (\<lambda>c. (0x40000000, 0, 0))"
    "answer kernel_ok = (\<lambda>c. (0x7F0000001000, 0, 0))"
    by (simp_all add: kernel32_ok_def kernel_ok_def)
  show ?thesis
    using mmap_syscall_offset_convention [where offset = 4097 and K = kernel32_ok and addr = 0
        and ?length0.0 = 16 and prot = 3 and flags = 1 and fd = 3 and ?K64.0 = kernel_ok
        and ?addr64.0 = 0 and ?length64.0 = 16 and ?prot64.0 = 3 and ?flags64.0 = 1
        and ?fd64.0 = 3]
      mmap_syscall_offset_convention [where offset = 8192 and K = kernel32_ok and addr = 0
        and ?length0.0 = 16 and prot = 3 and flags = 1 and fd = 3 and ?K64.0 = kernel_ok
        and ?addr64.0 = 0 and ?length64.0 = 16 and ?prot64.0 = 3 and ?flags64.0 = 1
        and ?fd64.0 = 3]
      a b
    by (simp only: c k fst_conv snd_conv EINVAL_def) simp
qed

section \<open>Creation\<close>

lemma MapAt_Fstat_fails:
  assumes "Fstat_answer K fd = (stat_Size, errno)" and "errno \<noteq> 0"
  shows "MapAt K addr fd offset (- 1) prot flags = (Inl (Errno (scast errno)), [Fstat fd])"
    and "MapAt_part001 K addr fd offset (- 1) prot flags
          = (Inl (Errno (scast errno)), [Fstat fd])"
  using assms by (simp_all add: MapAt_def MapAt_part001_def)

lemma MapAt_Fstat_succeeds:
  assumes "Fstat_answer K fd = (stat_Size, 0)"
  shows "snd (MapAt K addr fd offset (- 1) prot flags)
          = [Fstat fd, Syscall6 SYS_MMAP addr (scast stat_Size) (ucast prot) (ucast flags)
                         (scast fd) (scast offset)]"
    and "snd (MapAt_part001 K addr fd offset (- 1) prot flags)
          = [Fstat fd, Syscall6 SYS_MMAP addr (scast stat_Size) (ucast prot) (ucast flags)
                         (scast fd) (scast offset)]"
  using assms by (simp_all add: MapAt_def MapAt_part001_def Let_def split: prod.splits)

text \<open>
  C5. When \<open>MapAt\<close> is called with the length \<open>-1\<close> it first asks \<open>Fstat\<close> for the
  size of the descriptor. If \<open>Fstat\<close> fails, \<open>MapAt\<close> returns that error number as
  its error, no region, and \<open>Fstat\<close> is the only kernel call it has issued: the
  mapping call is never made. If \<open>Fstat\<close> succeeds, the mapping call follows, with
  \<open>stat.Size\<close> as its length. Both for \<open>gommap.go\<close> and for \<open>unnamed/part_001\<close>.
\<close>

theorem MapAt_Fstat_failure_stops_creation:
  assumes "Fstat_answer K fd = (stat_Size, errno)"
  shows "(errno \<noteq> 0 \<longrightarrow>
           MapAt K addr fd offset (- 1) prot flags = (Inl (Errno (scast errno)), [Fstat fd])
           \<and> MapAt_part001 K addr fd offset (- 1) prot flags
               = (Inl (Errno (scast errno)), [Fstat fd]))
    \<and> (errno = 0 \<longrightarrow>
           snd (MapAt K addr fd offset (- 1) prot flags)
             = [Fstat fd, Syscall6 SYS_MMAP addr (scast stat_Size) (ucast prot) (ucast flags)
                            (scast fd) (scast offset)]
           \<and> snd (MapAt_part001 K addr fd offset (- 1) prot flags)
             = [Fstat fd, Syscall6 SYS_MMAP addr (scast stat_Size) (ucast prot) (ucast flags)
                            (scast fd) (scast offset)])"
  using assms MapAt_Fstat_fails [of K fd stat_Size errno]
    MapAt_Fstat_succeeds [of K fd stat_Size]
  by blast

theorem MapAt_Fstat_failure_stops_creation_witness:
  "Fstat_answer kernel_refusing 3 = (0, 9)
   \<and> MapAt kernel_refusing 0 3 0 (- 1) 3 1 = (Inl (Errno 9), [Fstat 3])
   \<and> MapAt_part001 kernel_refusing 0 3 0 (- 1) 3 1 = (Inl (Errno 9), [Fstat 3])
   \<and> Fstat_answer kernel_ok 3 = (16, 0)
   \<and> snd (MapAt kernel_ok 0 3 0 (- 1) 3 1) = [Fstat 3, Syscall6 SYS_MMAP 0 16 3 1 3 0]
   \<and> snd (MapAt_part001 kernel_ok 0 3 0 (- 1) 3 1)
       = [Fstat 3, Syscall6 SYS_MMAP 0 16 3 1 3 0]"
proof -
  have bad: "Fstat_answer kernel_refusing 3 = (0, 9)"
    by (simp add: kernel_refusing_def)
  have good: "Fstat_answer kernel_ok 3 = (16, 0)"
    by (simp add: kernel_ok_def)
  show ?thesis
    using MapAt_Fstat_failure_stops_creation [OF bad, of 0 0 3 1]
      MapAt_Fstat_failure_stops_creation [OF good, of 0 0 3 1] bad good
    by simp
qed

lemma MapAt_Len:
  assumes "MapAt K addr fd offset length0 prot flags = (Inr m, tr)"
  shows "Len (MMap.Data m) = scast (mapped_length K fd length0)"
  using assms
  by (auto simp add: MapAt_def mapped_length_def Let_def split: prod.splits if_splits)

lemma MapAt_part001_Len:
  assumes "MapAt_part001 K addr fd offset length0 prot flags = (Inr s, tr)"
  shows "Len s = scast (mapped_length K fd length0)"
  using assms
  by (auto simp add: MapAt_part001_def mapped_length_def Let_def split: prod.splits if_splits)

lemma uint_scast_mod:
  fixes x :: "'a::len word"
  shows "uint (scast x :: 'i::len word) = sint x mod 2 ^ LENGTH('i)"
  by (simp only: scast_eq uint_word_of_int)

lemma sint_scast_differs:
  fixes x :: "'a::len word"
  assumes "\<not> (- (2 ^ (LENGTH('i::len) - 1)) \<le> sint x \<and> sint x < 2 ^ (LENGTH('i) - 1))"
  shows "sint (scast x :: 'i word) \<noteq> sint x"
  using assms sint_ge [of "scast x :: 'i word"] sint_lt [of "scast x :: 'i word"]
  by auto

text \<open>
  C10. \<open>MapAt\<close> stores \<open>int(length)\<close> as the length of the buffer, where \<open>length\<close>
  is the 64-bit length it maps (the caller's, or the size from \<open>Fstat\<close>). So whenever
  \<open>MapAt\<close> succeeds, the length of the buffer, read as an unsigned number of the
  width \<open>w\<close> of \<open>int\<close>, is the mapped length modulo \<open>2^w\<close>; and for every mapped
  length outside the range of \<open>int\<close> the length of the buffer is not the mapped
  length. Both for \<open>gommap.go\<close> and for \<open>unnamed/part_001\<close>.
\<close>

theorem MapAt_truncates_length:
  fixes K :: "('p::len, 'i::len) host"
  shows "(MapAt K addr fd offset length0 prot flags = (Inr m, tr) \<longrightarrow>
            uint (Len (MMap.Data m)) = sint (mapped_length K fd length0) mod 2 ^ LENGTH('i)
            \<and> (\<not> (- (2 ^ (LENGTH('i) - 1)) \<le> sint (mapped_length K fd length0)
                    \<and> sint (mapped_length K fd length0) < 2 ^ (LENGTH('i) - 1))
                \<longrightarrow> sint (Len (MMap.Data m)) \<noteq> sint (mapped_length K fd length0)))
     \<and> (MapAt_part001 K addr fd offset length0 prot flags = (Inr s, tr') \<longrightarrow>
            uint (Len s) = sint (mapped_length K fd length0) mod 2 ^ LENGTH('i)
            \<and> (\<not> (- (2 ^ (LENGTH('i) - 1)) \<le> sint (mapped_length K fd length0)
                    \<and> sint (mapped_length K fd length0) < 2 ^ (LENGTH('i) - 1))
                \<longrightarrow> sint (Len s) \<noteq> sint (mapped_length K fd length0)))"
  using MapAt_Len [of K addr fd offset length0 prot flags m tr]
    MapAt_part001_Len [of K addr fd offset length0 prot flags s tr']
    uint_scast_mod [of "mapped_length K fd length0", where 'i = 'i]
    sint_scast_differs [of "mapped_length K fd length0", where 'i = 'i]
  by auto

lemma MapAt_too_long:
  "MapAt kernel_ok 0 3 0 4294967312 3 1
     = (Inr mmap16, [Syscall6 SYS_MMAP 0 4294967312 3 1 3 0])"
  by (simp add: MapAt_def Let_def kernel_ok_def mmap16_def file16_def)

lemma MapAt_part001_too_long:
  "MapAt_part001 kernel_ok 0 3 0 4294967312 3 1
     = (Inr file16, [Syscall6 SYS_MMAP 0 4294967312 3 1 3 0])"
  by (simp add: MapAt_part001_def Let_def kernel_ok_def file16_def)

theorem MapAt_truncates_length_witness:
  "MapAt kernel_ok 0 3 0 4294967312 3 1 = (Inr mmap16, [Syscall6 SYS_MMAP 0 4294967312 3 1 3 0])
   \<and> MapAt_part001 kernel_ok 0 3 0 4294967312 3 1
       = (Inr file16, [Syscall6 SYS_MMAP 0 4294967312 3 1 3 0])
   \<and> sint (mapped_length kernel_ok 3 4294967312) = 4294967312
   \<and> \<not> sint (mapped_length kernel_ok 3 4294967312) < (2 :: int) ^ (32 - 1)
   \<and> uint (Len (MMap.Data mmap16)) = 4294967312 mod 2 ^ 32
   \<and> uint (Len file16) = 4294967312 mod 2 ^ 32
   \<and> sint (Len (MMap.Data mmap16)) \<noteq> 4294967312
   \<and> sint (Len file16) \<noteq> 4294967312"
  using MapAt_truncates_length [of kernel_ok 0 3 0 4294967312 3 1 mmap16
      "[Syscall6 SYS_MMAP 0 4294967312 3 1 3 0]" file16
      "[Syscall6 SYS_MMAP 0 4294967312 3 1 3 0]"]
    MapAt_too_long MapAt_part001_too_long
  by (simp add: mapped_length_def)

end
